theory Spec2Isabelle
  imports Complex_Main
begin

section \<open>Values that cross the Python/Java boundary\<close>

text \<open>
  A Python float is either NaN or a number. Only the distinction matters to the wrapper
  (\<^verbatim>\<open>np.isnan\<close>); the numeric payload is idealised as a real.
\<close>

datatype pyfloat = NaN | Num real

type_synonym point = "pyfloat list"

definition isnan :: "pyfloat \<Rightarrow> bool" where
  "isnan x = (x = NaN)"

text \<open>Exceptions thrown on the Java side, by the kind the specification names.\<close>

datatype java_error = ConfigurationError | DimensionMismatchError | NumericError

text \<open>
  What a wrapper call can raise: a Java exception surfacing through JPype
  (\<^verbatim>\<open>jpype.JException\<close>), or a Python error of the wrapper's own expressions.
\<close>

datatype error = JException java_error | IndexError | ZeroDivisionError

datatype Precision = FLOAT_32 | FLOAT_64

datatype TransformMethod = NONE | DIFFERENCE | NORMALIZE

text \<open>The result of \<^verbatim>\<open>process\<close>, with the fields the specification lists.\<close>

record AnomalyDescriptor =
  ad_score :: pyfloat
  ad_grade :: pyfloat
  ad_threshold :: pyfloat
  ad_low :: "pyfloat list"
  ad_high :: "pyfloat list"
  ad_expectedValue :: "pyfloat list"

section \<open>The Java builders and classes, as the wrapper sees them\<close>

text \<open>
  A builder is the record of the settings made on it so far: \<open>None\<close> is a setting
  no call has touched. \<^verbatim>\<open>RandomCutForest.builder()\<close> and
  \<^verbatim>\<open>ThresholdedRandomCutForest.builder()\<close> both start from \<open>new_builder\<close>;
  a chained call \<^verbatim>\<open>.numberOfTrees(n)\<close> is the record update
  \<open>b\<lparr>numberOfTrees := Some n\<rparr>\<close>.
\<close>

record builder =
  numberOfTrees :: "int option"
  sampleSize :: "int option"
  dimensions :: "int option"
  storeSequenceIndexesEnabled :: "bool option"
  centerOfMassEnabled :: "bool option"
  parallelExecutionEnabled :: "bool option"
  timeDecay :: "real option"
  outputAfter :: "int option"
  threadPoolSize :: "int option"
  randomSeed :: "int option"
  initialAcceptFraction :: "real option"
  compact_flag :: "bool option"
  precision :: "Precision option"
  boundingBoxCacheFraction :: "real option"
  shingleSize :: "int option"
  anomalyRate :: "real option"
  internalShinglingEnabled :: "bool option"
  transformMethod :: "TransformMethod option"
  alertOnce :: "bool option"
  autoAdjust :: "bool option"

definition new_builder :: builder where
  "new_builder =
     \<lparr>numberOfTrees = None, sampleSize = None, dimensions = None,
      storeSequenceIndexesEnabled = None, centerOfMassEnabled = None,
      parallelExecutionEnabled = None, timeDecay = None, outputAfter = None,
      threadPoolSize = None, randomSeed = None, initialAcceptFraction = None,
      compact_flag = None, precision = None, boundingBoxCacheFraction = None,
      shingleSize = None, anomalyRate = None, internalShinglingEnabled = None,
      transformMethod = None, alertOnce = None, autoAdjust = None\<rparr>"

text \<open>
  The Java class \<^verbatim>\<open>com.amazon.randomcutforest.RandomCutForest\<close> is imported, not
  defined, by the wrapper, and the constructor accepts a forest made elsewhere. So the
  class is a parameter of the embedding: the record of its methods over the state \<open>'s\<close>
  of a forest object. Every method returns the state it leaves behind, and either its
  result or the exception it throws.
\<close>

record 's RandomCutForest =
  rcf_build :: "builder \<Rightarrow> java_error + 's"
  getAnomalyScore :: "'s \<Rightarrow> point \<Rightarrow> (java_error + pyfloat) \<times> 's"
  rcf_update :: "'s \<Rightarrow> point \<Rightarrow> (java_error + unit) \<times> 's"
  imputeMissingValues :: "'s \<Rightarrow> point \<Rightarrow> nat \<Rightarrow> nat list \<Rightarrow> (java_error + point) \<times> 's"
  extrapolateBasic ::
    "'s \<Rightarrow> point \<Rightarrow> int \<Rightarrow> int \<Rightarrow> bool \<Rightarrow> int \<Rightarrow> (java_error + pyfloat list) \<times> 's"
  getDimensions :: "'s \<Rightarrow> (java_error + int) \<times> 's"

text \<open>The class \<^verbatim>\<open>ThresholdedRandomCutForest\<close> of the parkservices package.\<close>

record 't ThresholdedRandomCutForest =
  trcf_build :: "builder \<Rightarrow> java_error + 't"
  setZfactor :: "'t \<Rightarrow> real \<Rightarrow> (java_error + unit) \<times> 't"
  trcf_process :: "'t \<Rightarrow> point \<Rightarrow> int \<Rightarrow> (java_error + AnomalyDescriptor) \<times> 't"

text \<open>A Java exception propagates through the wrapper as \<open>JException\<close>.\<close>

definition raised :: "java_error + 'a \<Rightarrow> error + 'a" where
  "raised r = (case r of Inl e \<Rightarrow> Inl (JException e) | Inr v \<Rightarrow> Inr v)"

section \<open>rcf\_model.py: class RandomCutForestModel\<close>

text \<open>The object has one attribute, \<^verbatim>\<open>self.forest\<close>.\<close>

datatype 's RandomCutForestModel = RandomCutForestModel (self_forest: 's)

text \<open>
  \<^verbatim>\<open>__init__\<close>. Every parameter has a default, so each is an option: \<open>None\<close> is an
  omitted argument (for \<^verbatim>\<open>forest\<close>, \<^verbatim>\<open>random_seed\<close> and
  \<^verbatim>\<open>thread_pool_size\<close> the default is Python's \<^verbatim>\<open>None\<close> itself).
\<close>

definition dflt :: "'a \<Rightarrow> 'a option \<Rightarrow> 'a" where
  "dflt d v = (case v of None \<Rightarrow> d | Some x \<Rightarrow> x)"

definition rcf_builder ::
  "int option \<Rightarrow> int option \<Rightarrow> int option \<Rightarrow> int option \<Rightarrow> bool option \<Rightarrow> int option \<Rightarrow>
   real option \<Rightarrow> int option \<Rightarrow> builder" where
  "rcf_builder shingle_size num_trees random_seed sample_size parallel_execution_enabled
     thread_pool_size lam output_after =
     (let b0 = new_builder
            \<lparr>numberOfTrees := Some (dflt 100 num_trees),
             sampleSize := Some (dflt 256 sample_size),
             dimensions := Some (dflt 8 shingle_size),
             storeSequenceIndexesEnabled := Some True,
             centerOfMassEnabled := Some True,
             parallelExecutionEnabled := Some (dflt True parallel_execution_enabled),
             timeDecay := Some (dflt (1 / 10000) lam),
             outputAfter := Some (dflt 256 output_after)\<rparr>;
          b1 = (case thread_pool_size of
                  None \<Rightarrow> b0
                | Some n \<Rightarrow> b0\<lparr>threadPoolSize := Some n\<rparr>);
          b2 = (case random_seed of
                  None \<Rightarrow> b1
                | Some r \<Rightarrow> b1\<lparr>randomSeed := Some r\<rparr>)
      in b2)"

definition RandomCutForestModel_init ::
  "'s RandomCutForest \<Rightarrow> 's option \<Rightarrow> int option \<Rightarrow> int option \<Rightarrow> int option \<Rightarrow>
   int option \<Rightarrow> bool option \<Rightarrow> int option \<Rightarrow> real option \<Rightarrow> int option \<Rightarrow>
   error + 's RandomCutForestModel" where
  "RandomCutForestModel_init J forest shingle_size num_trees random_seed sample_size
     parallel_execution_enabled thread_pool_size lam output_after =
     (case forest of
        Some f \<Rightarrow> Inr (RandomCutForestModel f)
      | None \<Rightarrow>
          (case rcf_build J
                  (rcf_builder shingle_size num_trees random_seed sample_size
                     parallel_execution_enabled thread_pool_size lam output_after) of
             Inl e \<Rightarrow> Inl (JException e)
           | Inr f \<Rightarrow> Inr (RandomCutForestModel f)))"

definition score ::
  "'s RandomCutForest \<Rightarrow> 's RandomCutForestModel \<Rightarrow> point \<Rightarrow>
   (error + pyfloat) \<times> 's RandomCutForestModel" where
  "score J self point =
     (case getAnomalyScore J (self_forest self) point of
        (r, s') \<Rightarrow> (raised r, RandomCutForestModel s'))"

definition update ::
  "'s RandomCutForest \<Rightarrow> 's RandomCutForestModel \<Rightarrow> point \<Rightarrow>
   (error + unit) \<times> 's RandomCutForestModel" where
  "update J self point =
     (case rcf_update J (self_forest self) point of
        (r, s') \<Rightarrow> (raised r, RandomCutForestModel s'))"

text \<open>
  \<^verbatim>\<open>np.isnan(point).sum()\<close> counts the NaN coordinates, and
  \<^verbatim>\<open>np.argwhere(np.isnan(point)).flatten()\<close> lists their positions in increasing order.
\<close>

definition num_missing :: "point \<Rightarrow> nat" where
  "num_missing point = length (filter isnan point)"

definition missing_index :: "point \<Rightarrow> nat list" where
  "missing_index point = filter (\<lambda>i. isnan (point ! i)) [0..<length point]"

definition impute ::
  "'s RandomCutForest \<Rightarrow> 's RandomCutForestModel \<Rightarrow> point \<Rightarrow>
   (error + point) \<times> 's RandomCutForestModel" where
  "impute J self point =
     (if num_missing point = 0 then (Inr point, self)
      else
        (case imputeMissingValues J (self_forest self) point (num_missing point)
                (missing_index point) of
           (r, s') \<Rightarrow> (raised r, RandomCutForestModel s')))"

text \<open>\<^verbatim>\<open>xs[0]\<close> raises IndexError on an empty list.\<close>

fun first :: "'a list \<Rightarrow> error + 'a" where
  "first [] = Inl IndexError"
| "first (v # vs) = Inr v"

definition forecast ::
  "'s RandomCutForest \<Rightarrow> 's RandomCutForestModel \<Rightarrow> point \<Rightarrow>
   (error + pyfloat) \<times> 's RandomCutForestModel" where
  "forecast J self point =
     (case extrapolateBasic J (self_forest self) point 1 1 False 0 of
        (Inl e, s') \<Rightarrow> (Inl (JException e), RandomCutForestModel s')
      | (Inr vs, s') \<Rightarrow> (first vs, RandomCutForestModel s'))"

definition shingle_size ::
  "'s RandomCutForest \<Rightarrow> 's RandomCutForestModel \<Rightarrow> (error + int) \<times> 's RandomCutForestModel" where
  "shingle_size J self =
     (case getDimensions J (self_forest self) of
        (r, s') \<Rightarrow> (raised r, RandomCutForestModel s'))"

section \<open>trcf\_model.py: class TRandomCutForestModel\<close>

datatype 't TRandomCutForestModel = TRandomCutForestModel (self_tforest: 't)

text \<open>
  \<^verbatim>\<open>__init__\<close>: \<^verbatim>\<open>rcf_dimensions\<close> and \<^verbatim>\<open>shingle_size\<close> are required, the
  other parameters have defaults. \<^verbatim>\<open>output_after*1.0/sample_size\<close> is a float
  division, which raises ZeroDivisionError on a zero sample size before any builder
  exists. The parameters \<^verbatim>\<open>score_differencing\<close> and \<^verbatim>\<open>ignore_delta_threshold\<close>
  are accepted and appear nowhere in the body.
\<close>

definition trcf_builder :: "int \<Rightarrow> int \<Rightarrow> int \<Rightarrow> int \<Rightarrow> real \<Rightarrow> int \<Rightarrow> builder" where
  "trcf_builder rcf_dimensions shingle_sz num_trees output_after anomaly_rate sample_size =
     new_builder
       \<lparr>dimensions := Some rcf_dimensions,
        sampleSize := Some sample_size,
        numberOfTrees := Some num_trees,
        timeDecay := Some (1 / 10000),
        initialAcceptFraction := Some (real_of_int output_after * 1 / real_of_int sample_size),
        parallelExecutionEnabled := Some True,
        compact_flag := Some True,
        precision := Some FLOAT_32,
        boundingBoxCacheFraction := Some 1,
        shingleSize := Some shingle_sz,
        anomalyRate := Some anomaly_rate,
        outputAfter := Some output_after,
        internalShinglingEnabled := Some True,
        transformMethod := Some NORMALIZE,
        alertOnce := Some True,
        autoAdjust := Some True\<rparr>"

definition TRandomCutForestModel_init ::
  "'t ThresholdedRandomCutForest \<Rightarrow> int \<Rightarrow> int \<Rightarrow> int option \<Rightarrow> int option \<Rightarrow>
   real option \<Rightarrow> real option \<Rightarrow> real option \<Rightarrow> real option \<Rightarrow> int option \<Rightarrow>
   error + 't TRandomCutForestModel" where
  "TRandomCutForestModel_init T rcf_dimensions shingle_sz num_trees output_after anomaly_rate
     z_factor score_differencing ignore_delta_threshold sample_size =
     (if dflt 256 sample_size = 0 then Inl ZeroDivisionError
      else
        (case trcf_build T
                (trcf_builder rcf_dimensions shingle_sz (dflt 30 num_trees)
                   (dflt 256 output_after) (dflt (5 / 1000) anomaly_rate)
                   (dflt 256 sample_size)) of
           Inl e \<Rightarrow> Inl (JException e)
         | Inr f \<Rightarrow>
             (case setZfactor T f (dflt (25 / 10) z_factor) of
                (Inl e, f') \<Rightarrow> Inl (JException e)
              | (Inr u, f') \<Rightarrow> Inr (TRandomCutForestModel f'))))"

definition process ::
  "'t ThresholdedRandomCutForest \<Rightarrow> 't TRandomCutForestModel \<Rightarrow> point \<Rightarrow>
   (error + AnomalyDescriptor) \<times> 't TRandomCutForestModel" where
  "process T self point =
     (case trcf_process T (self_tforest self) point 0 of
        (r, s') \<Rightarrow> (raised r, TRandomCutForestModel s'))"

section \<open>The engine behind the wrapper\<close>

text \<open>
  The Java library that the wrapper forwards to is not part of the wrapper's sources.
  Where a property depends on what the engine does, the engine is modelled from the
  specification, and the result is one instance of the class records above. What the
  specification leaves to the random source or to a numeric search stays a parameter
  (the record \<open>engine\<close>).
\<close>

text \<open>
  Modelled from the spec: the random cut tree (sections 3 and 4.2), whose Java class is
  missing. A leaf holds a point and its mass; an internal node holds the cut dimension,
  the cut value and its two children. An empty tree has no root (\<open>None\<close>).
\<close>

datatype tree = Leaf point nat | Node nat real tree tree

text \<open>Modelled from the spec: the mass of a subtree, the number of points it holds.\<close>

fun mass :: "tree \<Rightarrow> nat" where
  "mass (Leaf q m) = m"
| "mass (Node d c l r) = mass l + mass r"

text \<open>Modelled from the spec: the coordinate of a point that a cut is compared with.\<close>

definition coord :: "point \<Rightarrow> nat \<Rightarrow> real" where
  "coord p i = (if i < length p then (case p ! i of Num x \<Rightarrow> x | NaN \<Rightarrow> 0) else 0)"

text \<open>
  Modelled from the spec: the displacement statistic of section 4.2, missing with the
  Java tree. Along the descent of the point, each node at depth \<open>k\<close> contributes the
  mass of the sibling subtree divided by \<open>k + 1\<close>; the contributions are summed.
\<close>

fun displacement :: "tree \<Rightarrow> point \<Rightarrow> nat \<Rightarrow> real" where
  "displacement (Leaf q m) p k = 0"
| "displacement (Node d c l r) p k =
     (if coord p d \<le> c
      then real (mass r) / real (k + 1) + displacement l p (k + 1)
      else real (mass l) / real (k + 1) + displacement r p (k + 1))"

text \<open>Modelled from the spec: a tree's anomaly score; an empty tree scores 0.\<close>

definition anomaly_score :: "tree option \<Rightarrow> point \<Rightarrow> real" where
  "anomaly_score t p = (case t of None \<Rightarrow> 0 | Some n \<Rightarrow> displacement n p 0)"

text \<open>
  Modelled from the spec: the forest ensemble (section 3), missing with the Java class
  RandomCutForest: its dimensionality, sample size and cold-start length, its trees, and
  its logical time counter, which counts the points ingested.
\<close>

record forest_state =
  fs_dimensions :: nat
  fs_sampleSize :: nat
  fs_outputAfter :: int
  fs_trees :: "tree option list"
  fs_clock :: nat

text \<open>
  Modelled from the spec: the thresholded forest (section 4.4), missing with the Java
  class ThresholdedRandomCutForest: the wrapped ensemble, the shingle buffer and the
  settings of the calibration layer.
\<close>

record tforest_state =
  tf_forest :: forest_state
  tf_shingleSize :: nat
  tf_internalShingling :: bool
  tf_buffer :: "point list"
  tf_anomalyRate :: real
  tf_zFactor :: real

text \<open>
  Modelled from the spec: the parts of the missing engine that the specification
  describes only as a random choice or a search. \<open>tree_step i c t p\<close> is tree number
  \<open>i\<close> after the sample pool was offered the point \<open>p\<close> at time \<open>c\<close> (insertion and
  eviction, section 4.1 and 4.2); \<open>tree_search t p i\<close> is the value the tree finds for
  the missing dimension \<open>i\<close> of \<open>p\<close>; \<open>calibrate\<close> is the normalisation,
  thresholding and grading of one accepted point (section 4.4).
\<close>

record engine =
  tree_step :: "nat \<Rightarrow> nat \<Rightarrow> tree option \<Rightarrow> point \<Rightarrow> tree option"
  tree_search :: "tree option \<Rightarrow> point \<Rightarrow> nat \<Rightarrow> real"
  calibrate :: "tforest_state \<Rightarrow> point \<Rightarrow> int \<Rightarrow> AnomalyDescriptor \<times> tforest_state"

text \<open>
  Modelled from the spec: construction (sections 6 and 7), missing with the Java
  builder. Unset options take the defaults of the specification's \<open>construct\<close>; invalid
  dimensions, sample size or tree count are a ConfigurationError; trees start empty.
\<close>

definition spec_build :: "builder \<Rightarrow> java_error + forest_state" where
  "spec_build b =
     (case dimensions b of
        None \<Rightarrow> Inl ConfigurationError
      | Some d \<Rightarrow>
          (let n = dflt 100 (numberOfTrees b); c = dflt 256 (sampleSize b) in
           if d \<le> 0 \<or> n \<le> 0 \<or> c \<le> 0 then Inl ConfigurationError
           else Inr \<lparr>fs_dimensions = nat d, fs_sampleSize = nat c,
                     fs_outputAfter = dflt 256 (outputAfter b),
                     fs_trees = replicate (nat n) None, fs_clock = 0\<rparr>))"

text \<open>Modelled from the spec: the mean that aggregates the per-tree scores.\<close>

definition mean :: "real list \<Rightarrow> real" where
  "mean xs = (if xs = [] then 0 else sum_list xs / real (length xs))"

text \<open>Modelled from the spec: the aggregate score of section 4.3, before the cold-start gate.\<close>

definition raw_score :: "forest_state \<Rightarrow> point \<Rightarrow> real" where
  "raw_score s p = mean (map (\<lambda>t. anomaly_score t p) (fs_trees s))"

text \<open>
  Modelled from the spec: \<open>Forest.score\<close>, the missing getAnomalyScore. A dimension
  mismatch and a non-finite input are rejected; before \<open>outputAfter\<close> points have been
  ingested the score is 0; afterwards it is the mean of the per-tree scores. The state
  is only read.
\<close>

definition spec_getAnomalyScore ::
  "forest_state \<Rightarrow> point \<Rightarrow> (java_error + pyfloat) \<times> forest_state" where
  "spec_getAnomalyScore s p =
     (if length p \<noteq> fs_dimensions s then (Inl DimensionMismatchError, s)
      else if \<exists>x \<in> set p. isnan x then (Inl NumericError, s)
      else if int (fs_clock s) < fs_outputAfter s then (Inr (Num 0), s)
      else (Inr (Num (raw_score s p)), s))"

text \<open>
  Modelled from the spec: \<open>Forest.update\<close>, the missing Java update, the single
  mutation entry point. A rejected point changes nothing; an accepted one is offered to
  every tree and advances the time counter.
\<close>

definition spec_update ::
  "engine \<Rightarrow> forest_state \<Rightarrow> point \<Rightarrow> (java_error + unit) \<times> forest_state" where
  "spec_update E s p =
     (if length p \<noteq> fs_dimensions s then (Inl DimensionMismatchError, s)
      else if \<exists>x \<in> set p. isnan x then (Inl NumericError, s)
      else (Inr (),
            s\<lparr>fs_trees := map (\<lambda>(i, t). tree_step E i (fs_clock s) t p)
                             (enumerate 0 (fs_trees s)),
              fs_clock := fs_clock s + 1\<rparr>))"

text \<open>
  Modelled from the spec: selection at a rank in a list of per-tree results. A forest
  without trees is never built, so an index out of range is a configuration error.
\<close>

definition pick :: "'a list \<Rightarrow> nat \<Rightarrow> java_error + 'a" where
  "pick xs i = (if i < length xs then Inr (xs ! i) else Inl ConfigurationError)"

text \<open>Modelled from the spec: the rank of a percentile among \<open>n\<close> per-tree results.\<close>

definition percentile_index :: "nat \<Rightarrow> nat \<Rightarrow> nat" where
  "percentile_index pct n = (pct * n) div 100"

text \<open>
  Modelled from the spec: the per-tree median imputed value for one missing dimension.
\<close>

definition median_imputed :: "engine \<Rightarrow> forest_state \<Rightarrow> point \<Rightarrow> nat \<Rightarrow> java_error + real" where
  "median_imputed E s p i =
     pick (sort (map (\<lambda>t. tree_search E t p i) (fs_trees s)))
       (percentile_index 50 (length (fs_trees s)))"

text \<open>
  Modelled from the spec: one tree's candidate completion of a point, the point with
  each missing dimension replaced by the value the tree finds for it.
\<close>

definition candidate :: "engine \<Rightarrow> tree option \<Rightarrow> point \<Rightarrow> nat list \<Rightarrow> point" where
  "candidate E t p idx = fold (\<lambda>i q. q[i := Num (tree_search E t p i)]) idx p"

text \<open>
  Modelled from the spec: the per-tree candidate at the 25th percentile of induced
  anomaly score, for several missing dimensions.
\<close>

definition percentile_candidate ::
  "engine \<Rightarrow> forest_state \<Rightarrow> point \<Rightarrow> nat list \<Rightarrow> java_error + point" where
  "percentile_candidate E s p idx =
     pick (sort_key (raw_score s) (map (\<lambda>t. candidate E t p idx) (fs_trees s)))
       (percentile_index 25 (length (fs_trees s)))"

text \<open>
  Modelled from the spec: \<open>Forest.impute\<close> (sections 4.3, 7 and 8), the missing
  imputeMissingValues. A point of the wrong length is rejected. A point without a single
  number, all of it NaN, is returned as it came (section 7), and so is a point with
  nothing to impute (section 8). Otherwise \<open>n\<close> is the number of missing dimensions
  and the first \<open>n\<close> indexes are their positions: with one missing dimension the
  result has the per-tree median at that position, with several it is the candidate at
  the 25th percentile. The state is only read.
\<close>

definition spec_imputeMissingValues ::
  "engine \<Rightarrow> forest_state \<Rightarrow> point \<Rightarrow> nat \<Rightarrow> nat list \<Rightarrow> (java_error + point) \<times> forest_state" where
  "spec_imputeMissingValues E s p n idx =
     (if length p \<noteq> fs_dimensions s then (Inl DimensionMismatchError, s)
      else if list_all isnan p then (Inr p, s)
      else
        (case take n idx of
           [] \<Rightarrow> (Inr p, s)
         | i # rest \<Rightarrow>
             if n = 1 then
               (case median_imputed E s p i of
                  Inl e \<Rightarrow> (Inl e, s)
                | Inr v \<Rightarrow> (Inr (p[i := Num v]), s))
             else (percentile_candidate E s p (i # rest), s)))"

text \<open>
  Modelled from the spec: forecasting as repeated single-step imputation (section 4.3):
  the window moves on by one, a placeholder stands for the next value, and the value
  imputed for it is the forecast of that step.
\<close>

fun extrapolate_steps ::
  "engine \<Rightarrow> forest_state \<Rightarrow> point \<Rightarrow> nat \<Rightarrow> java_error + pyfloat list" where
  "extrapolate_steps E s p 0 = Inr []"
| "extrapolate_steps E s p (Suc h) =
     (case fst (spec_imputeMissingValues E s (tl p @ [NaN]) 1 [length p - 1]) of
        Inl e \<Rightarrow> Inl e
      | Inr q \<Rightarrow>
          (case extrapolate_steps E s q h of
             Inl e \<Rightarrow> Inl e
           | Inr vs \<Rightarrow> Inr (last q # vs)))"

text \<open>
  Modelled from the spec: \<open>Forest.forecast\<close> over a horizon, the missing
  extrapolateBasic. The specification describes the horizon only; the block size, the
  cyclic flag and the shingle index are not read. The state is only read.
\<close>

definition spec_extrapolateBasic ::
  "engine \<Rightarrow> forest_state \<Rightarrow> point \<Rightarrow> int \<Rightarrow> int \<Rightarrow> bool \<Rightarrow> int \<Rightarrow>
   (java_error + pyfloat list) \<times> forest_state" where
  "spec_extrapolateBasic E s p horizon blockSize cyclic shingleIndex =
     (if length p \<noteq> fs_dimensions s then (Inl DimensionMismatchError, s)
      else (extrapolate_steps E s p (nat horizon), s))"

text \<open>Modelled from the spec: the dimensionality D of the forest's points, the missing getDimensions.\<close>

definition spec_getDimensions :: "forest_state \<Rightarrow> (java_error + int) \<times> forest_state" where
  "spec_getDimensions s = (Inr (int (fs_dimensions s)), s)"

text \<open>Modelled from the spec: the forest ensemble as an instance of the Java class.\<close>

definition spec_rcf :: "engine \<Rightarrow> forest_state RandomCutForest" where
  "spec_rcf E =
     \<lparr>rcf_build = spec_build,
      getAnomalyScore = spec_getAnomalyScore,
      rcf_update = spec_update E,
      imputeMissingValues = spec_imputeMissingValues E,
      extrapolateBasic = spec_extrapolateBasic E,
      getDimensions = spec_getDimensions\<rparr>"

text \<open>
  Modelled from the spec: construction of the thresholded forest, missing with its Java
  builder. The defaults are those of the specification's \<open>constructThresholded\<close>.
\<close>

definition spec_tbuild :: "builder \<Rightarrow> java_error + tforest_state" where
  "spec_tbuild b =
     (case spec_build (b\<lparr>numberOfTrees := Some (dflt 30 (numberOfTrees b))\<rparr>) of
        Inl e \<Rightarrow> Inl e
      | Inr f \<Rightarrow>
          (let k = dflt 1 (shingleSize b) in
           if k \<le> 0 then Inl ConfigurationError
           else Inr \<lparr>tf_forest = f, tf_shingleSize = nat k,
                     tf_internalShingling = dflt False (internalShinglingEnabled b),
                     tf_buffer = [],
                     tf_anomalyRate = dflt (5 / 1000) (anomalyRate b),
                     tf_zFactor = 25 / 10\<rparr>))"

text \<open>Modelled from the spec: the z-factor setter of the calibration layer.\<close>

definition spec_setZfactor :: "tforest_state \<Rightarrow> real \<Rightarrow> (java_error + unit) \<times> tforest_state" where
  "spec_setZfactor t z = (Inr (), t\<lparr>tf_zFactor := z\<rparr>)"

text \<open>
  Modelled from the spec: the length of an input point of the thresholded forest. With
  internal shingling the shingle buffer rolls raw points of the base dimension,
  dimensions / shingleSize, into points of the forest; without it the caller passes
  whole shingles.
\<close>

definition input_length :: "tforest_state \<Rightarrow> nat" where
  "input_length t =
     (if tf_internalShingling t then fs_dimensions (tf_forest t) div tf_shingleSize t
      else fs_dimensions (tf_forest t))"

text \<open>
  Modelled from the spec: \<open>ThresholdedForest.process\<close>, the missing Java process. A
  dimension mismatch is rejected before anything changes; an accepted point goes through
  the calibration layer.
\<close>

definition spec_process ::
  "engine \<Rightarrow> tforest_state \<Rightarrow> point \<Rightarrow> int \<Rightarrow> (java_error + AnomalyDescriptor) \<times> tforest_state" where
  "spec_process E t p timestamp =
     (if length p \<noteq> input_length t then (Inl DimensionMismatchError, t)
      else (case calibrate E t p timestamp of (d, t') \<Rightarrow> (Inr d, t')))"

text \<open>Modelled from the spec: the thresholded forest as an instance of its Java class.\<close>

definition spec_trcf :: "engine \<Rightarrow> tforest_state ThresholdedRandomCutForest" where
  "spec_trcf E =
     \<lparr>trcf_build = spec_tbuild, setZfactor = spec_setZfactor, trcf_process = spec_process E\<rparr>"

section \<open>Call sequences and concrete instances\<close>

text \<open>
  A history of \<^verbatim>\<open>update\<close> calls on one model. A call that raises leaves the caller
  with the model as the call left it, and the next call goes on from there.
\<close>

fun updates ::
  "'s RandomCutForest \<Rightarrow> 's RandomCutForestModel \<Rightarrow> point list \<Rightarrow> 's RandomCutForestModel" where
  "updates J self [] = self"
| "updates J self (p # ps) = updates J (snd (update J self p)) ps"

text \<open>A valid point of a forest of dimensionality \<open>d\<close>: the right length, no NaN.\<close>

definition valid_point :: "nat \<Rightarrow> point \<Rightarrow> bool" where
  "valid_point d p = (length p = d \<and> list_all (\<lambda>x. \<not> isnan x) p)"

text \<open>
  The signature the specification gives to \<open>process\<close>, with a timestamp supplied by the
  caller and forwarded to the forest; to be compared with \<open>process\<close> above.
\<close>

definition process_at ::
  "'t ThresholdedRandomCutForest \<Rightarrow> 't TRandomCutForestModel \<Rightarrow> point \<Rightarrow> int \<Rightarrow>
   (error + AnomalyDescriptor) \<times> 't TRandomCutForestModel" where
  "process_at T self point timestamp =
     (case trcf_process T (self_tforest self) point timestamp of
        (r, s') \<Rightarrow> (raised r, TRandomCutForestModel s'))"

text \<open>
  A thresholded forest that only records the arguments of the \<open>process\<close> calls it
  receives: it shows what the wrapper hands to the Java side.
\<close>

definition blank_descriptor :: AnomalyDescriptor where
  "blank_descriptor =
     \<lparr>ad_score = Num 0, ad_grade = Num 0, ad_threshold = Num 0, ad_low = [], ad_high = [],
      ad_expectedValue = []\<rparr>"

definition recording_trcf :: "(point \<times> int) list ThresholdedRandomCutForest" where
  "recording_trcf =
     \<lparr>trcf_build = (\<lambda>b. Inr []),
      setZfactor = (\<lambda>s z. (Inr (), s)),
      trcf_process = (\<lambda>s p ts. (Inr blank_descriptor, s @ [(p, ts)]))\<rparr>"

text \<open>
  A small engine for evaluating the model at concrete inputs: a tree takes the offered
  point as a new leaf beside what it holds, cut at the point's first coordinate; the
  value found for a missing dimension is the mass of the tree.
\<close>

definition demo_engine :: engine where
  "demo_engine =
     \<lparr>tree_step = (\<lambda>i c t p.
        case t of None \<Rightarrow> Some (Leaf p 1)
        | Some n \<Rightarrow> Some (Node 0 (coord p 0) (Leaf p 1) n)),
      tree_search = (\<lambda>t p i. case t of None \<Rightarrow> 0 | Some n \<Rightarrow> real (mass n)),
      calibrate = (\<lambda>t p ts. (blank_descriptor, t\<lparr>tf_buffer := tf_buffer t @ [p]\<rparr>))\<rparr>"

text \<open>
  The forest that \<open>spec_build\<close> makes for two dimensions, three trees and a cold start of
  one point, and a thresholded forest around a forest of four dimensions and shingle
  size four.
\<close>

definition forest0 :: forest_state where
  "forest0 =
     \<lparr>fs_dimensions = 2, fs_sampleSize = 256, fs_outputAfter = 1,
      fs_trees = [None, None, None], fs_clock = 0\<rparr>"


definition tforest0 :: tforest_state where
  "tforest0 =
     \<lparr>tf_forest = \<lparr>fs_dimensions = 4, fs_sampleSize = 256, fs_outputAfter = 256,
                   fs_trees = [None, None], fs_clock = 0\<rparr>,
      tf_shingleSize = 4, tf_internalShingling = True, tf_buffer = [],
      tf_anomalyRate = 5 / 1000, tf_zFactor = 25 / 10\<rparr>"

section \<open>Lemmas on the wrapper\<close>

lemma num_missing_zero_iff: "num_missing p = 0 \<longleftrightarrow> (\<forall>x \<in> set p. \<not> isnan x)"
  by (simp add: num_missing_def filter_empty_conv)

lemma rcf_builder_sizes:
  "dimensions (rcf_builder k nt rs ss pe tp lam oa) = Some (dflt 8 k)"
  "shingleSize (rcf_builder k nt rs ss pe tp lam oa) = None"
  by (cases tp; cases rs; simp add: rcf_builder_def new_builder_def Let_def)+





section \<open>Lemmas on the modelled engine\<close>

lemma spec_build_dimensions:
  "spec_build b = Inr f \<Longrightarrow> dimensions b = Some (int (fs_dimensions f))"
  by (auto simp: spec_build_def Let_def split: option.splits if_splits)

lemma spec_build_fresh:
  "spec_build b = Inr f \<Longrightarrow>
   fs_clock f = 0 \<and> fs_outputAfter f = dflt 256 (outputAfter b) \<and> fs_trees f \<noteq> []"
  by (auto simp: spec_build_def Let_def split: option.splits if_splits)

lemma init_forest0:
  "RandomCutForestModel_init (spec_rcf demo_engine) None (Some 2) (Some 3) None None None
     None None (Some 1) = Inr (RandomCutForestModel forest0)"
  by (simp add: RandomCutForestModel_init_def spec_rcf_def rcf_builder_def new_builder_def
      dflt_def spec_build_def forest0_def numeral_3_eq_3 Let_def)

lemma init_spec_fresh:
  assumes "RandomCutForestModel_init (spec_rcf E) None k nt rs ss pe tp lam oa = Inr m0"
  shows "fs_clock (self_forest m0) = 0" and "fs_outputAfter (self_forest m0) = dflt 256 oa"
    and "fs_trees (self_forest m0) \<noteq> []"
proof -
  let ?b = "rcf_builder k nt rs ss pe tp lam oa"
  have oa: "outputAfter ?b = Some (dflt 256 oa)"
    by (cases tp; cases rs; simp add: rcf_builder_def new_builder_def Let_def)
  from assms have b: "spec_build ?b = Inr (self_forest m0)"
    by (auto simp: RandomCutForestModel_init_def spec_rcf_def split: sum.splits)
  from spec_build_fresh [OF b] oa
  show "fs_clock (self_forest m0) = 0" and "fs_outputAfter (self_forest m0) = dflt 256 oa"
    and "fs_trees (self_forest m0) \<noteq> []"
    by (simp_all add: dflt_def)
qed









lemma spec_impute_single:
  "length p = fs_dimensions s \<Longrightarrow> \<not> list_all isnan p \<Longrightarrow> median_imputed E s p i = Inr v \<Longrightarrow>
   spec_imputeMissingValues E s p (Suc 0) [i] = (Inr (p[i := Num v]), s)"
  by (simp add: spec_imputeMissingValues_def)




lemma spec_extrapolate_one:
  assumes len: "length p = fs_dimensions s" and num: "\<exists>x \<in> set (tl p). \<not> isnan x"
    and v: "median_imputed E s (tl p @ [NaN]) (length p - 1) = Inr v"
  shows "spec_extrapolateBasic E s p 1 1 False 0 = (Inr [Num v], s)"
proof -
  let ?q = "tl p @ [NaN]"
  from num have ne: "p \<noteq> []" by auto
  then have lq: "length ?q = length p" by (cases p) simp_all
  with len have len': "length ?q = fs_dimensions s" by simp
  from num have num': "\<not> list_all isnan ?q" by (auto simp: list_all_iff)
  have imp: "spec_imputeMissingValues E s ?q (Suc 0) [length p - 1]
      = (Inr (?q[length p - 1 := Num v]), s)"
    by (rule spec_impute_single [OF len' num' v])
  have "last (?q[length p - 1 := Num v]) = Num v"
    using lq by (simp add: last_list_update del: length_append length_tl)
  with imp have "extrapolate_steps E s p (Suc 0) = Inr [Num v]"
    by simp
  with len show ?thesis by (simp add: spec_extrapolateBasic_def)
qed

lemma displacement_nonneg: "0 \<le> displacement t p k"
  by (induction t arbitrary: k) simp_all

lemma anomaly_score_nonneg: "0 \<le> anomaly_score t p"
  by (cases t) (simp_all add: anomaly_score_def displacement_nonneg)

lemma mean_nonneg: "(\<And>x. x \<in> set xs \<Longrightarrow> 0 \<le> x) \<Longrightarrow> 0 \<le> mean xs"
  by (simp add: mean_def sum_list_nonneg)

lemma raw_score_nonneg: "0 \<le> raw_score s p"
  unfolding raw_score_def by (rule mean_nonneg) (auto simp: anomaly_score_nonneg)

lemma spec_score_valid:
  "valid_point (fs_dimensions s) p \<Longrightarrow>
   spec_getAnomalyScore s p =
     (Inr (Num (if int (fs_clock s) < fs_outputAfter s then 0 else raw_score s p)), s)"
  by (simp add: spec_getAnomalyScore_def valid_point_def list_all_iff)

lemma spec_update_frame:
  "fs_dimensions (snd (spec_update E s q)) = fs_dimensions s"
  "fs_outputAfter (snd (spec_update E s q)) = fs_outputAfter s"
  "fs_clock (snd (spec_update E s q)) =
     fs_clock s + (if valid_point (fs_dimensions s) q then 1 else 0)"
  by (auto simp: spec_update_def valid_point_def list_all_iff)

lemma update_spec_forest:
  "self_forest (snd (update (spec_rcf E) m q)) = snd (spec_update E (self_forest m) q)"
  by (simp add: update_def spec_rcf_def split: prod.splits)

lemma updates_frame:
  "fs_dimensions (self_forest (updates (spec_rcf E) m hs)) = fs_dimensions (self_forest m)
   \<and> fs_outputAfter (self_forest (updates (spec_rcf E) m hs)) = fs_outputAfter (self_forest m)
   \<and> fs_clock (self_forest (updates (spec_rcf E) m hs)) =
       fs_clock (self_forest m)
         + length (filter (valid_point (fs_dimensions (self_forest m))) hs)"
proof (induction hs arbitrary: m)
  case Nil
  show ?case by simp
next
  case (Cons q hs)
  show ?case
    using Cons.IH [of "snd (update (spec_rcf E) m q)"]
    by (simp add: update_spec_forest spec_update_frame)
qed

lemma demo_run:
  "fst (score (spec_rcf demo_engine)
      (updates (spec_rcf demo_engine) (RandomCutForestModel forest0)
         [[Num 1, Num 2], [Num 3, Num 1]]) [Num 0, Num 0]) = Inr (Num 1)"
  by (simp add: score_def update_def spec_rcf_def spec_update_def spec_getAnomalyScore_def
      forest0_def isnan_def demo_engine_def raised_def raw_score_def mean_def
      anomaly_score_def coord_def enumerate_eq_zip upt_rec)





section \<open>The wrapper, for every forest class\<close>

text \<open>
  C5. On a point with no NaN coordinate (zero missing dimensions), \<open>impute\<close> returns the
  point unchanged and leaves the model as it was, whatever the forest is.
\<close>

theorem impute_complete_point_identity:
  "\<forall>x \<in> set p. \<not> isnan x \<Longrightarrow> impute J self p = (Inr p, self)"
  by (simp add: impute_def num_missing_zero_iff)

theorem impute_complete_point_identity_witness:
  "impute (spec_rcf demo_engine) (RandomCutForestModel forest0) [Num 1, Num 2]
     = (Inr [Num 1, Num 2], RandomCutForestModel forest0)"
  using impute_complete_point_identity
    [of "[Num 1, Num 2]" "spec_rcf demo_engine" "RandomCutForestModel forest0"]
  by (simp add: isnan_def)

text \<open>
  C3, as the code has it. \<open>process\<close> takes a point and nothing else: it hands the forest
  the point with the constant timestamp 0, and its result is the descriptor the forest
  computes for the point at timestamp 0.
\<close>

theorem process_passes_timestamp_zero: "process T self p = process_at T self p 0"
  by (simp add: process_def process_at_def)

text \<open>
  C3, as the specification states it, fails: a caller who means timestamp 5 cannot pass
  it. The recording forest receives 0 from \<open>process\<close>, and 5 only from the signature of the
  specification.
\<close>

theorem process_timestamp_counterexample:
  "process recording_trcf (TRandomCutForestModel []) [Num 1]
     = (Inr blank_descriptor, TRandomCutForestModel [([Num 1], 0)])
   \<and> process_at recording_trcf (TRandomCutForestModel []) [Num 1] 5
     = (Inr blank_descriptor, TRandomCutForestModel [([Num 1], 5)])
   \<and> process recording_trcf (TRandomCutForestModel []) [Num 1]
     \<noteq> process_at recording_trcf (TRandomCutForestModel []) [Num 1] 5"
  by (simp add: process_def process_at_def recording_trcf_def raised_def)

text \<open>
  C7, as the code has it. The constructor has one size parameter, \<^verbatim>\<open>shingle_size\<close>
  (default 8), and passes it to the builder as the forest's dimensions; the builder's
  shingle size is never set. With the optional parameters omitted, the builder is given
  100 trees, sample size 256, time decay 0.0001, output after 256 points and parallel
  execution enabled (and sequence indexes and centre of mass enabled, no thread pool
  size, no seed), and the forest is what \<open>build\<close> makes of it.
\<close>

theorem rcf_init_defaults:
  "rcf_builder k None None None None None None None =
     new_builder
       \<lparr>numberOfTrees := Some 100, sampleSize := Some 256, dimensions := Some (dflt 8 k),
        storeSequenceIndexesEnabled := Some True, centerOfMassEnabled := Some True,
        parallelExecutionEnabled := Some True, timeDecay := Some (1 / 10000),
        outputAfter := Some 256\<rparr>
   \<and> RandomCutForestModel_init J None k None None None None None None None =
       (case rcf_build J (rcf_builder k None None None None None None None) of
          Inl e \<Rightarrow> Inl (JException e)
        | Inr f \<Rightarrow> Inr (RandomCutForestModel f))
   \<and> dimensions (rcf_builder k nt rs ss pe tp lam oa) = Some (dflt 8 k)
   \<and> shingleSize (rcf_builder k nt rs ss pe tp lam oa) = None"
  by (simp add: rcf_builder_sizes)
    (simp add: rcf_builder_def RandomCutForestModel_init_def new_builder_def dflt_def Let_def)

text \<open>
  C7, as the specification states it, fails: there are no separate parameters for
  dimensions and shingle size. The one size argument becomes the dimensions, 4 or 8
  here, and no shingle size reaches the builder.
\<close>

theorem rcf_init_dimensions_counterexample:
  "dimensions (rcf_builder (Some 4) None None None None None None None) = Some 4
   \<and> shingleSize (rcf_builder (Some 4) None None None None None None None) = None
   \<and> dimensions (rcf_builder (Some 8) None None None None None None None) = Some 8
   \<and> shingleSize (rcf_builder (Some 8) None None None None None None None) = None"
  by (simp add: rcf_builder_sizes dflt_def)

text \<open>
  C8, where the code falls short of the specification. The constructor of the thresholded model
  accepts \<^verbatim>\<open>score_differencing\<close> (default 0.5) and
  \<^verbatim>\<open>ignore_delta_threshold\<close>, and the model built does not depend on either: no
  builder option and no setter receives them. The other defaults arrive: 30 trees,
  sample size 256, output after 256, anomaly rate 0.005, and z-factor 2.5 through
  \<open>setZfactor\<close>.
\<close>

theorem trcf_init_score_differencing_unused:
  "TRandomCutForestModel_init T d k nt oa ar z sd idt ss
     = TRandomCutForestModel_init T d k nt oa ar z sd' idt' ss
   \<and> trcf_builder d k (dflt 30 None) (dflt 256 None) (dflt (5 / 1000) None) (dflt 256 None) =
       new_builder
         \<lparr>dimensions := Some d, sampleSize := Some 256, numberOfTrees := Some 30,
          timeDecay := Some (1 / 10000), initialAcceptFraction := Some 1,
          parallelExecutionEnabled := Some True, compact_flag := Some True,
          precision := Some FLOAT_32, boundingBoxCacheFraction := Some 1,
          shingleSize := Some k, anomalyRate := Some (5 / 1000), outputAfter := Some 256,
          internalShinglingEnabled := Some True, transformMethod := Some NORMALIZE,
          alertOnce := Some True, autoAdjust := Some True\<rparr>"
  by (simp add: TRandomCutForestModel_init_def trcf_builder_def new_builder_def dflt_def)

text \<open>
  C9. \<open>forecast\<close> makes one call of the forest's extrapolation, with horizon 1 and
  block size 1, and returns the first value of the result. The forest answers a horizon
  of 1 with a block of 1 by one value, and then that value, the only one, is the float
  returned.
\<close>

theorem forecast_one_step:
  assumes "extrapolateBasic J (self_forest m) p 1 1 False 0 = (Inr vs, s')"
    and "length vs = 1"
  shows "forecast J m p = (Inr (hd vs), RandomCutForestModel s') \<and> vs = [hd vs]"
proof -
  from assms(2) obtain v where "vs = [v]" by (cases vs) auto
  with assms(1) show ?thesis by (simp add: forecast_def)
qed

theorem forecast_one_step_witness:
  "forecast (spec_rcf demo_engine) (RandomCutForestModel forest0) [Num 1, Num 2]
     = (Inr (Num 0), RandomCutForestModel forest0)"
proof -
  have v: "median_imputed demo_engine forest0 (tl [Num 1, Num 2] @ [NaN])
             (length [Num 1, Num 2 :: pyfloat] - 1) = Inr 0"
    by (simp add: median_imputed_def forest0_def demo_engine_def pick_def percentile_index_def)
  have x: "extrapolateBasic (spec_rcf demo_engine)
             (self_forest (RandomCutForestModel forest0)) [Num 1, Num 2] 1 1 False 0
           = (Inr [Num 0], forest0)"
    using spec_extrapolate_one [OF _ _ v] by (simp add: spec_rcf_def forest0_def isnan_def)
  from forecast_one_step [OF x] show ?thesis by simp
qed

text \<open>
  C10. After the constructor has built a forest for shingle size \<open>k\<close>, the property
  \<^verbatim>\<open>shingle_size\<close> returns \<open>k\<close>: the builder was given \<open>k\<close> as the forest's
  dimensions and no shingle size of its own, and the property reads the forest's
  dimensions back. The forest class is any whose \<open>getDimensions\<close> returns the dimensions
  it was built with.
\<close>

theorem shingle_size_reads_back:
  assumes init: "RandomCutForestModel_init J None (Some k) nt rs ss pe tp lam oa = Inr m"
    and getter: "\<And>b f d. rcf_build J b = Inr f \<Longrightarrow> dimensions b = Some d \<Longrightarrow>
                   getDimensions J f = (Inr d, f)"
  shows "shingle_size J m = (Inr k, m)
     \<and> dimensions (rcf_builder (Some k) nt rs ss pe tp lam oa) = Some k
     \<and> shingleSize (rcf_builder (Some k) nt rs ss pe tp lam oa) = None"
proof -
  let ?b = "rcf_builder (Some k) nt rs ss pe tp lam oa"
  have d: "dimensions ?b = Some k" and sh: "shingleSize ?b = None"
    by (simp_all add: rcf_builder_sizes dflt_def)
  from init have b: "rcf_build J ?b = Inr (self_forest m)"
    by (auto simp: RandomCutForestModel_init_def split: sum.splits)
  from getter [OF b d] have "shingle_size J m = (Inr k, m)"
    by (simp add: shingle_size_def raised_def)
  with d sh show ?thesis by simp
qed

theorem shingle_size_reads_back_witness:
  "shingle_size (spec_rcf demo_engine) (RandomCutForestModel forest0)
     = (Inr 2, RandomCutForestModel forest0)"
proof -
  have g: "\<And>b f d. rcf_build (spec_rcf demo_engine) b = Inr f \<Longrightarrow> dimensions b = Some d \<Longrightarrow>
             getDimensions (spec_rcf demo_engine) f = (Inr d, f)"
    using spec_build_dimensions by (fastforce simp: spec_rcf_def spec_getDimensions_def)
  from shingle_size_reads_back [OF init_forest0 g] show ?thesis by simp
qed

section \<open>The wrapper over the modelled engine\<close>






text \<open>
  C4, as the code has it. A point whose length differs from the configured
  dimensionality is rejected by \<open>update\<close>, \<open>score\<close>, \<open>forecast\<close> and \<open>process\<close>, and by
  \<open>impute\<close> when the point has a NaN coordinate, and the model after the call is the
  model before it. \<open>impute\<close> returns a point without NaN as it came, whatever its length,
  also leaving the model as it was.
\<close>

theorem mismatch_rejected_without_mutation:
  assumes "length p \<noteq> fs_dimensions (self_forest m)"
    and "length pt \<noteq> input_length (self_tforest tm)"
  shows "update (spec_rcf E) m p = (Inl (JException DimensionMismatchError), m)
     \<and> score (spec_rcf E) m p = (Inl (JException DimensionMismatchError), m)
     \<and> forecast (spec_rcf E) m p = (Inl (JException DimensionMismatchError), m)
     \<and> process (spec_trcf E) tm pt = (Inl (JException DimensionMismatchError), tm)
     \<and> impute (spec_rcf E) m p =
         (if \<exists>x \<in> set p. isnan x then (Inl (JException DimensionMismatchError), m)
          else (Inr p, m))"
  using assms
  by (simp add: update_def score_def forecast_def process_def impute_def spec_rcf_def
      spec_trcf_def spec_update_def spec_getAnomalyScore_def spec_extrapolateBasic_def
      spec_process_def spec_imputeMissingValues_def raised_def num_missing_zero_iff)

theorem mismatch_rejected_without_mutation_witness:
  "update (spec_rcf demo_engine) (RandomCutForestModel forest0) [Num 1]
     = (Inl (JException DimensionMismatchError), RandomCutForestModel forest0)
   \<and> process (spec_trcf demo_engine) (TRandomCutForestModel tforest0) [Num 1, Num 2]
     = (Inl (JException DimensionMismatchError), TRandomCutForestModel tforest0)
   \<and> impute (spec_rcf demo_engine) (RandomCutForestModel forest0) [NaN]
     = (Inl (JException DimensionMismatchError), RandomCutForestModel forest0)"
proof -
  have h1: "length [Num 1] \<noteq> fs_dimensions (self_forest (RandomCutForestModel forest0))"
    by (simp add: forest0_def)
  have h1': "length [NaN] \<noteq> fs_dimensions (self_forest (RandomCutForestModel forest0))"
    by (simp add: forest0_def)
  have h2: "length [Num 1, Num 2] \<noteq> input_length (self_tforest (TRandomCutForestModel tforest0))"
    by (simp add: tforest0_def input_length_def)
  from mismatch_rejected_without_mutation [OF h1 h2, of demo_engine]
    mismatch_rejected_without_mutation [OF h1' h2, of demo_engine]
  show ?thesis by (simp add: isnan_def)
qed

text \<open>
  C4, as the specification states it, fails for \<open>impute\<close>: a point of one coordinate and
  no NaN, given to a forest of two dimensions, is returned and not rejected.
\<close>

theorem impute_mismatch_counterexample:
  "length [Num 1] \<noteq> fs_dimensions forest0
   \<and> impute (spec_rcf demo_engine) (RandomCutForestModel forest0) [Num 1]
       = (Inr [Num 1], RandomCutForestModel forest0)"
  by (simp add: impute_def num_missing_def isnan_def forest0_def)

text \<open>
  C6. On a forest the constructor has built, after any history of \<open>update\<close> calls, the
  score of a valid point is a number that is not negative, and it is 0 as long as fewer
  than \<open>outputAfter\<close> points of the history were applied (an update of an invalid point
  is rejected and applies nothing).
\<close>

theorem score_nonnegative_and_cold_start:
  assumes init: "RandomCutForestModel_init (spec_rcf E) None k nt rs ss pe tp lam oa = Inr m0"
    and vp: "valid_point (fs_dimensions (self_forest m0)) p"
  shows "\<exists>v. score (spec_rcf E) (updates (spec_rcf E) m0 hs) p
               = (Inr (Num v), updates (spec_rcf E) m0 hs)
           \<and> 0 \<le> v
           \<and> (int (length (filter (valid_point (fs_dimensions (self_forest m0))) hs))
                < dflt 256 oa \<longrightarrow> v = 0)"
proof -
  let ?m = "updates (spec_rcf E) m0 hs"
  let ?s = "self_forest ?m"
  let ?v = "if int (fs_clock ?s) < fs_outputAfter ?s then 0 else raw_score ?s p"
  from updates_frame [of E m0 hs] init_spec_fresh(1,2) [OF init]
  have d: "fs_dimensions ?s = fs_dimensions (self_forest m0)"
    and o: "fs_outputAfter ?s = dflt 256 oa"
    and c: "fs_clock ?s = length (filter (valid_point (fs_dimensions (self_forest m0))) hs)"
    by simp_all
  from vp d have "valid_point (fs_dimensions ?s) p" by simp
  from spec_score_valid [OF this]
  have "score (spec_rcf E) ?m p = (Inr (Num ?v), ?m)"
    by (simp add: score_def spec_rcf_def raised_def)
  moreover have "0 \<le> ?v" by (simp add: raw_score_nonneg)
  moreover have "int (length (filter (valid_point (fs_dimensions (self_forest m0))) hs))
      < dflt 256 oa \<longrightarrow> ?v = 0"
    using c o by simp
  ultimately show ?thesis by blast
qed

theorem score_nonnegative_and_cold_start_witness:
  "fst (score (spec_rcf demo_engine)
      (updates (spec_rcf demo_engine) (RandomCutForestModel forest0)
         [[Num 1, Num 2], [Num 3, Num 1]]) [Num 0, Num 0]) = Inr (Num 1)
   \<and> score (spec_rcf demo_engine) (RandomCutForestModel forest0) [Num 0, Num 0]
       = (Inr (Num 0), RandomCutForestModel forest0)"
proof -
  have vp: "valid_point (fs_dimensions (self_forest (RandomCutForestModel forest0)))
              [Num 0, Num 0]"
    by (simp add: valid_point_def forest0_def isnan_def)
  from score_nonnegative_and_cold_start [OF init_forest0 vp, of "[]"]
  have "score (spec_rcf demo_engine) (RandomCutForestModel forest0) [Num 0, Num 0]
       = (Inr (Num 0), RandomCutForestModel forest0)"
    by (auto simp: dflt_def)
  with demo_run show ?thesis by simp
qed

end
